theory Spec2Isabelle
  imports Main "HOL-Library.Word"
begin

section \<open>Values of the Boost library that endpoint.hpp handles\<close>

text \<open>
  \<^verbatim>\<open>typedef uint16_t base_port_type;\<close> and
  \<^verbatim>\<open>typedef boost::optional<base_port_type> port_type;\<close> of \<^verbatim>\<open>ip_endpoint\<close>,
  \<^verbatim>\<open>typedef std::string base_service_type;\<close> of \<^verbatim>\<open>endpoint\<close>.
\<close>

type_synonym base_port_type = "16 word"

type_synonym port_type = "base_port_type option"

type_synonym base_service_type = string

text \<open>
  \<^verbatim>\<open>protocol_type\<close> is \<^verbatim>\<open>boost::asio::ip::udp\<close>, whose two values are
  \<^verbatim>\<open>udp::v4()\<close> and \<^verbatim>\<open>udp::v6()\<close>; \<^verbatim>\<open>flags_type\<close> is the resolver query's bit mask.
\<close>

datatype protocol_type = udp_v4 | udp_v6

type_synonym flags_type = int

text \<open>
  \<^verbatim>\<open>boost::system::error_code\<close>: an integer value, zero for success. The default
  constructor \<^verbatim>\<open>boost::system::error_code()\<close> gives the value zero.
\<close>

datatype error_code = error_code (ec_value: int)

definition error_code_default :: error_code where
  "error_code_default = error_code 0"

text \<open>
  The failures of a resolution. \<open>bad_lexical_cast\<close> is the exception
  \<^verbatim>\<open>boost::bad_lexical_cast\<close> that \<^verbatim>\<open>boost::lexical_cast\<close> throws; the code of
  \<^verbatim>\<open>ip_endpoint\<close> has no handler for it, so it leaves the method that made the
  conversion. The specification calls this failure \<^verbatim>\<open>InvalidServiceFormat\<close>.
  \<open>EmptyResult\<close> and \<open>ResolutionFailure\<close> are the two failures that the specification
  gives the hostname variant.
\<close>

datatype error = bad_lexical_cast | EmptyResult | ResolutionFailure error_code

text \<open>
  \<^verbatim>\<open>ep_type\<close> is \<^verbatim>\<open>boost::asio::ip::udp::endpoint\<close>, built by
  \<^verbatim>\<open>ep_type(address, port)\<close> and read by \<^verbatim>\<open>address()\<close> and \<^verbatim>\<open>port()\<close>. The
  address type is the template parameter \<^verbatim>\<open>AddressType\<close>, here the type variable.
\<close>

datatype 'a ep_type = ep_type (address: 'a) (port: base_port_type)

text \<open>
  \<^verbatim>\<open>boost::asio::ip::udp::resolver::iterator\<close> runs over resolver entries, each an
  endpoint with the host name and the service name of the query. The model is the list
  of the entries, in the iterator's order. \<^verbatim>\<open>iterator::create(ep, host, service)\<close>
  makes the iterator over the one entry it is given.
\<close>

record 'a basic_resolver_entry =
  entry_endpoint :: "'a ep_type"
  host_name :: string
  service_name :: string

type_synonym 'a iterator = "'a basic_resolver_entry list"

definition iterator_create :: "'a ep_type \<Rightarrow> string \<Rightarrow> string \<Rightarrow> 'a iterator" where
  "iterator_create ep host service =
     [\<lparr>entry_endpoint = ep, host_name = host, service_name = service\<rparr>]"

subsection \<open>Conversions between text and port numbers\<close>

definition is_digit :: "char \<Rightarrow> bool" where
  "is_digit c = (48 \<le> (of_char c :: nat) \<and> (of_char c :: nat) \<le> 57)"

definition digit_value :: "char \<Rightarrow> nat" where
  "digit_value c = of_char c - 48"

text \<open>
  The digits of a text read from the left, with the value read so far; the reading
  stops with no value at a character that is not a digit, and as soon as the value
  leaves the range of \<^verbatim>\<open>uint16_t\<close>.
\<close>

fun read_decimal :: "nat \<Rightarrow> string \<Rightarrow> nat option" where
  "read_decimal acc [] = Some acc"
| "read_decimal acc (c # cs) =
     (if is_digit c
      then (let acc' = 10 * acc + digit_value c
            in if 65535 < acc' then None else read_decimal acc' cs)
      else None)"

text \<open>
  Modelled from the spec: \<^verbatim>\<open>boost::lexical_cast<base_port_type>(default_service)\<close> is
  a template of the Boost library and not of the files of the repository. The
  specification has it parse its argument as a base-10 unsigned 16-bit integer: a text
  that is not empty, of decimal digits only, whose value is at most 65535. \<open>None\<close>
  stands for the exception \<^verbatim>\<open>boost::bad_lexical_cast\<close>.
\<close>

definition lexical_cast_port :: "base_service_type \<Rightarrow> base_port_type option" where
  "lexical_cast_port s =
     (if s = [] then None else map_option of_nat (read_decimal 0 s))"

text \<open>
  Modelled from the spec: \<^verbatim>\<open>boost::lexical_cast<std::string>(ep.port())\<close>, also of the
  Boost library, is the decimal rendering of the port number, with no leading zero.
\<close>

fun write_decimal :: "nat \<Rightarrow> string" where
  "write_decimal n =
     (if n < 10 then [char_of (48 + n)]
      else write_decimal (n div 10) @ [char_of (48 + n mod 10)])"

declare write_decimal.simps [simp del]

definition lexical_cast_string :: "base_port_type \<Rightarrow> string" where
  "lexical_cast_string p = write_decimal (unat p)"

section \<open>The literal address endpoint\<close>

text \<open>
  \<^verbatim>\<open>template <typename AddressType> class ip_endpoint\<close> with its two private fields
  \<^verbatim>\<open>m_address\<close> and \<^verbatim>\<open>m_port\<close>; the constructor stores its two arguments.
\<close>

datatype 'a ip_endpoint = ip_endpoint (m_address: 'a) (m_port: port_type)

text \<open>
  \<^verbatim>\<open>ip_endpoint<AddressType>::resolve\<close>. The method is not \<^verbatim>\<open>const\<close>, so the object
  is part of what it returns: the result, which is the endpoint or the exception that
  left the method, and the object after the call. The resolver is received by
  reference and never used.
\<close>

definition resolve ::
  "'a ip_endpoint \<Rightarrow> 'r \<Rightarrow> protocol_type \<Rightarrow> flags_type \<Rightarrow> base_service_type
     \<Rightarrow> (error + 'a ep_type) \<times> 'a ip_endpoint" where
  "resolve this resolver protocol flags default_service =
     (case m_port this of
        Some p \<Rightarrow> (Inr (ep_type (m_address this) p), this)
      | None \<Rightarrow>
          (case lexical_cast_port default_service of
             None \<Rightarrow> (Inl bad_lexical_cast, this)
           | Some p \<Rightarrow> (Inr (ep_type (m_address this) p), this)))"

text \<open>
  \<^verbatim>\<open>handler_type\<close> is a \<^verbatim>\<open>boost::function\<close> from an error code and an iterator to
  \<^verbatim>\<open>void\<close>: what it does is done to the state of its caller, of type \<open>'s\<close> here.
  The handler is taken to hold a function, and that function to return.
\<close>

type_synonym ('a, 's) handler_type = "error_code \<Rightarrow> 'a iterator \<Rightarrow> 's \<Rightarrow> 's"

text \<open>
  \<^verbatim>\<open>ip_endpoint<AddressType>::async_resolve\<close>. \<open>to_string\<close> is the member
  \<^verbatim>\<open>to_string()\<close> of the address type. The method first calls \<open>resolve\<close>; an
  exception of that call leaves \<open>async_resolve\<close> at once, before the handler is
  reached, and the state of the caller is as it was. Otherwise the handler runs, once,
  inside the call. The result is the exception if there was one, the state of the
  caller after the call, and the object after the call. The two renderings, of the
  address and of the port, are taken to return.
\<close>

definition async_resolve ::
  "('a \<Rightarrow> string) \<Rightarrow> 'a ip_endpoint \<Rightarrow> 'r \<Rightarrow> protocol_type \<Rightarrow> flags_type
     \<Rightarrow> base_service_type \<Rightarrow> ('a, 's) handler_type \<Rightarrow> 's
     \<Rightarrow> (error + unit) \<times> 's \<times> 'a ip_endpoint" where
  "async_resolve to_string this resolver protocol flags default_service handler s =
     (case resolve this resolver protocol flags default_service of
        (Inl ex, this') \<Rightarrow> (Inl ex, s, this')
      | (Inr ep, this') \<Rightarrow>
          (let it = iterator_create ep (to_string (address ep))
                      (lexical_cast_string (port ep))
           in (Inr (), handler error_code_default it s, this')))"

text \<open>
  \<^verbatim>\<open>boost::asio::ip::address_v4\<close> as its 32-bit value, and its \<^verbatim>\<open>to_string()\<close>:
  the four bytes in decimal, the most significant first, with dots between them.
\<close>

type_synonym address_v4 = "32 word"

definition address_v4_to_string :: "address_v4 \<Rightarrow> string" where
  "address_v4_to_string a =
     write_decimal (unat a div 16777216 mod 256) @ ''.'' @
     write_decimal (unat a div 65536 mod 256) @ ''.'' @
     write_decimal (unat a div 256 mod 256) @ ''.'' @
     write_decimal (unat a mod 256)"

section \<open>The hostname endpoint\<close>

text \<open>
  \<^verbatim>\<open>class hostname_endpoint\<close> with its two private fields \<^verbatim>\<open>m_hostname\<close> and
  \<^verbatim>\<open>m_service\<close>; the constructor stores its two arguments.
\<close>

datatype hostname_endpoint =
  hostname_endpoint (m_hostname: string) (m_service: "base_service_type option")

text \<open>
  The query that a resolver receives, and the resolver as the answer it gives to each
  query: an error code and the candidates in its order of preference. The synchronous
  and the asynchronous operation of one resolver give the same answer.
\<close>

record query =
  query_protocol :: protocol_type
  query_host :: string
  query_service :: string
  query_flags :: flags_type

type_synonym 'a resolver = "query \<Rightarrow> error_code \<times> 'a iterator"

definition hostname_query ::
  "hostname_endpoint \<Rightarrow> protocol_type \<Rightarrow> flags_type \<Rightarrow> base_service_type \<Rightarrow> query" where
  "hostname_query this protocol flags default_service =
     \<lparr>query_protocol = protocol, query_host = m_hostname this,
      query_service = (case m_service this of Some sv \<Rightarrow> sv | None \<Rightarrow> default_service),
      query_flags = flags\<rparr>"

text \<open>
  What one answer of a resolver is worth to a caller that wants one endpoint: the error
  of the resolver as it is, \<open>EmptyResult\<close> when there is no candidate, the first
  candidate otherwise.
\<close>

definition first_candidate :: "error_code \<Rightarrow> 'a iterator \<Rightarrow> error + 'a ep_type" where
  "first_candidate ec it =
     (if ec \<noteq> error_code_default then Inl (ResolutionFailure ec)
      else (case it of [] \<Rightarrow> Inl EmptyResult | x # xs \<Rightarrow> Inr (entry_endpoint x)))"

text \<open>
  Modelled from the spec: \<^verbatim>\<open>hostname_endpoint::resolve\<close> is declared in endpoint.hpp
  and its body is not in the files of the repository. The specification: build a query
  from the hostname, the service of the endpoint or else the default service, the
  protocol and the flags; delegate to the injected resolver; return the first
  candidate in the order of the resolver, fail with \<open>EmptyResult\<close> if there is none,
  and surface an error of the resolver as it is. Resolution never changes the endpoint.
\<close>

definition hostname_resolve ::
  "hostname_endpoint \<Rightarrow> 'a resolver \<Rightarrow> protocol_type \<Rightarrow> flags_type \<Rightarrow> base_service_type
     \<Rightarrow> (error + 'a ep_type) \<times> hostname_endpoint" where
  "hostname_resolve this resolver protocol flags default_service =
     (case resolver (hostname_query this protocol flags default_service) of
        (ec, it) \<Rightarrow> (first_candidate ec it, this))"

text \<open>
  Modelled from the spec: \<^verbatim>\<open>hostname_endpoint::async_resolve\<close> is declared in
  endpoint.hpp and its body is not in the files of the repository. The specification:
  the same query goes to the injected resolver, and the completion callback receives,
  once, the whole sequence of candidates in the order of the resolver, or its error.
\<close>

definition hostname_async_resolve ::
  "hostname_endpoint \<Rightarrow> 'a resolver \<Rightarrow> protocol_type \<Rightarrow> flags_type \<Rightarrow> base_service_type
     \<Rightarrow> ('a, 's) handler_type \<Rightarrow> 's \<Rightarrow> (error + unit) \<times> 's \<times> hostname_endpoint" where
  "hostname_async_resolve this resolver protocol flags default_service handler s =
     (case resolver (hostname_query this protocol flags default_service) of
        (ec, it) \<Rightarrow> (Inr (), handler ec it s, this))"

section \<open>The endpoint capability\<close>

text \<open>
  \<^verbatim>\<open>class endpoint\<close> is the abstract base of the two classes above, with the two pure
  virtual methods \<^verbatim>\<open>resolve\<close> and \<^verbatim>\<open>async_resolve\<close>. A value of it is a value of
  one of its subclasses, and a call of a virtual method goes to that subclass.
\<close>

datatype 'a endpoint = Literal "'a ip_endpoint" | Hostname hostname_endpoint

fun endpoint_resolve ::
  "'a endpoint \<Rightarrow> 'a resolver \<Rightarrow> protocol_type \<Rightarrow> flags_type \<Rightarrow> base_service_type
     \<Rightarrow> (error + 'a ep_type) \<times> 'a endpoint" where
  "endpoint_resolve (Literal e) resolver protocol flags default_service =
     apsnd Literal (resolve e resolver protocol flags default_service)"
| "endpoint_resolve (Hostname e) resolver protocol flags default_service =
     apsnd Hostname (hostname_resolve e resolver protocol flags default_service)"

fun endpoint_async_resolve ::
  "('a \<Rightarrow> string) \<Rightarrow> 'a endpoint \<Rightarrow> 'a resolver \<Rightarrow> protocol_type \<Rightarrow> flags_type
     \<Rightarrow> base_service_type \<Rightarrow> ('a, 's) handler_type \<Rightarrow> 's
     \<Rightarrow> (error + unit) \<times> 's \<times> 'a endpoint" where
  "endpoint_async_resolve to_string (Literal e) resolver protocol flags default_service handler s =
     apsnd (apsnd Literal)
       (async_resolve to_string e resolver protocol flags default_service handler s)"
| "endpoint_async_resolve to_string (Hostname e) resolver protocol flags default_service handler s =
     apsnd (apsnd Hostname)
       (hostname_async_resolve e resolver protocol flags default_service handler s)"

section \<open>Observing a completion callback\<close>

text \<open>
  A handler that does nothing but add its two arguments to a log kept by the caller:
  the log after a call of \<open>async_resolve\<close> has one entry for each invocation of the
  handler, in their order.
\<close>

definition record_call :: "('a, (error_code \<times> 'a iterator) list) handler_type" where
  "record_call ec it log = log @ [(ec, it)]"

text \<open>
  What a call of \<open>async_resolve\<close> with the recording handler and an empty log has given
  its caller: the exception if one left the call with no invocation of the handler; the
  worth of the one answer that the handler received if the call returned and the handler
  ran once; nothing definite otherwise.
\<close>

fun yielded ::
  "(error + unit) \<Rightarrow> (error_code \<times> 'a iterator) list \<Rightarrow> (error + 'a ep_type) option" where
  "yielded (Inl ex) log = (if log = [] then Some (Inl ex) else None)"
| "yielded (Inr u) [] = None"
| "yielded (Inr u) [c] = Some (first_candidate (fst c) (snd c))"
| "yielded (Inr u) (c # c' # cs) = None"

text \<open>
  The one input on which the literal variant has no port to return: an endpoint with no
  port of its own and a default service that the conversion rejects.
\<close>

fun default_service_rejected :: "'a endpoint \<Rightarrow> base_service_type \<Rightarrow> bool" where
  "default_service_rejected (Literal e) default_service =
     (m_port e = None \<and> lexical_cast_port default_service = None)"
| "default_service_rejected (Hostname e) default_service = False"

text \<open>A resolver that answers every query with success and no candidate.\<close>

definition empty_resolver :: "'a resolver" where
  "empty_resolver q = (error_code_default, [])"

text \<open>A resolver that fails on every query, with the error code 1 and no candidate.\<close>

definition failing_resolver :: "'a resolver" where
  "failing_resolver q = (error_code 1, [])"

text \<open>A resolver that answers every query with the one candidate 9.0.0.1, port 1234.\<close>

definition single_resolver :: "address_v4 resolver" where
  "single_resolver q =
     (error_code_default,
      [\<lparr>entry_endpoint = ep_type 0x09000001 1234, host_name = query_host q,
        service_name = query_service q\<rparr>])"

text \<open>
  A caller that keeps a trace: the handler it passes adds \<open>Handler_called\<close> to the
  trace when it runs, and the caller adds \<open>Returned\<close> once \<open>async_resolve\<close> has
  returned or thrown.
\<close>

datatype 'a event = Handler_called error_code "'a iterator" | Returned "error + unit"

definition trace_handler :: "('a, 'a event list) handler_type" where
  "trace_handler ec it trace = trace @ [Handler_called ec it]"

definition traced_async_resolve ::
  "('a \<Rightarrow> string) \<Rightarrow> 'a ip_endpoint \<Rightarrow> 'r \<Rightarrow> protocol_type \<Rightarrow> flags_type
     \<Rightarrow> base_service_type \<Rightarrow> 'a event list \<Rightarrow> 'a event list" where
  "traced_async_resolve to_string this resolver protocol flags default_service trace =
     (case async_resolve to_string this resolver protocol flags default_service
             trace_handler trace of
        (r, trace', this') \<Rightarrow> trace' @ [Returned r])"

text \<open>The value in base 10 of a text of digits.\<close>

definition decimal_value :: "string \<Rightarrow> nat" where
  "decimal_value s = foldl (\<lambda>n c. 10 * n + digit_value c) 0 s"

section \<open>The conversions\<close>

lemma char_of_digits:
  "char_of (48::nat) = CHR ''0''" "char_of (49::nat) = CHR ''1''"
  "char_of (50::nat) = CHR ''2''" "char_of (51::nat) = CHR ''3''"
  "char_of (52::nat) = CHR ''4''" "char_of (53::nat) = CHR ''5''"
  "char_of (54::nat) = CHR ''6''" "char_of (55::nat) = CHR ''7''"
  "char_of (56::nat) = CHR ''8''" "char_of (57::nat) = CHR ''9''"
  by (simp_all add: char_of_def bit_Suc_0_iff)

lemmas eval_simps =
  resolve_def async_resolve_def lexical_cast_port_def is_digit_def digit_value_def
  iterator_create_def error_code_default_def record_call_def address_v4_to_string_def
  lexical_cast_string_def write_decimal.simps char_of_digits decimal_value_def
  hostname_resolve_def hostname_async_resolve_def hostname_query_def first_candidate_def
  empty_resolver_def failing_resolver_def single_resolver_def trace_handler_def traced_async_resolve_def

lemma decimal_prefix_le: "acc \<le> foldl (\<lambda>n c. 10 * n + digit_value c) acc cs"
proof (induction cs arbitrary: acc)
  case Nil
  show ?case by simp
next
  case (Cons c cs)
  have "acc \<le> 10 * acc + digit_value c" by simp
  also have "\<dots> \<le> foldl (\<lambda>n c. 10 * n + digit_value c) (10 * acc + digit_value c) cs"
    by (rule Cons.IH)
  finally show ?case by simp
qed

text \<open>
  Reading digits with the range check at every step accepts the texts of digits whose
  value is in range, and gives that value.
\<close>

lemma read_decimal_eq:
  "acc \<le> 65535 \<Longrightarrow> read_decimal acc cs =
     (if list_all is_digit cs \<and> foldl (\<lambda>n c. 10 * n + digit_value c) acc cs \<le> 65535
      then Some (foldl (\<lambda>n c. 10 * n + digit_value c) acc cs) else None)"
proof (induction cs arbitrary: acc)
  case Nil
  then show ?case by simp
next
  case (Cons c cs)
  show ?case
  proof (cases "is_digit c")
    case False
    then show ?thesis by simp
  next
    case True
    let ?a = "10 * acc + digit_value c"
    show ?thesis
    proof (cases "65535 < ?a")
      case big: True
      have "?a \<le> foldl (\<lambda>n c. 10 * n + digit_value c) ?a cs"
        by (rule decimal_prefix_le)
      with big have "\<not> foldl (\<lambda>n c. 10 * n + digit_value c) ?a cs \<le> 65535"
        by simp
      with True big show ?thesis by (simp add: Let_def)
    next
      case False
      then have "?a \<le> 65535" by simp
      from Cons.IH [OF this] True False show ?thesis by (simp add: Let_def)
    qed
  qed
qed

lemma lexical_cast_port_eq:
  "lexical_cast_port s =
     (if s \<noteq> [] \<and> list_all is_digit s \<and> decimal_value s \<le> 65535
      then Some (of_nat (decimal_value s)) else None)"
  by (simp add: lexical_cast_port_def read_decimal_eq decimal_value_def)

lemma write_decimal_not_Nil: "write_decimal n \<noteq> []"
  by (subst write_decimal.simps) simp

lemma write_decimal_digits: "list_all is_digit (write_decimal n)"
proof (induction n rule: write_decimal.induct)
  case (1 n)
  show ?case
  proof (cases "n < 10")
    case True
    then show ?thesis
      by (subst write_decimal.simps) (simp add: is_digit_def)
  next
    case False
    have "n mod 10 < 10" by simp
    then have "is_digit (char_of (48 + n mod 10))"
      unfolding is_digit_def by simp
    with False 1 show ?thesis
      by (subst write_decimal.simps) simp
  qed
qed

lemma write_decimal_value: "decimal_value (write_decimal n) = n"
proof (induction n rule: write_decimal.induct)
  case (1 n)
  show ?case
  proof (cases "n < 10")
    case True
    then show ?thesis
      by (subst write_decimal.simps) (simp add: decimal_value_def digit_value_def)
  next
    case False
    have "n mod 10 < 10" by simp
    then have d: "digit_value (char_of (48 + n mod 10)) = n mod 10"
      unfolding digit_value_def by simp
    from False 1 have "decimal_value (write_decimal (n div 10)) = n div 10"
      by simp
    with False d show ?thesis
      by (subst write_decimal.simps) (simp add: decimal_value_def)
  qed
qed

text \<open>The rendering of a port number is read back as that port number.\<close>

lemma lexical_cast_roundtrip: "lexical_cast_port (lexical_cast_string p) = Some p"
proof -
  have "unat p < 2 ^ 16" using unsigned_less [of p] by simp
  then have "unat p \<le> 65535" by simp
  then show ?thesis
    by (simp add: lexical_cast_port_eq lexical_cast_string_def write_decimal_not_Nil
        write_decimal_digits write_decimal_value)
qed

section \<open>The two methods of the literal address endpoint, case by case\<close>

lemma resolve_cases:
  "resolve e resolver protocol flags default_service =
     (if m_port e = None \<and> lexical_cast_port default_service = None
      then (Inl bad_lexical_cast, e)
      else (Inr (ep_type (m_address e)
                  (case m_port e of Some p \<Rightarrow> p
                   | None \<Rightarrow> the (lexical_cast_port default_service))), e))"
  by (simp add: resolve_def split: option.split)

lemma async_resolve_failure:
  assumes "m_port e = None" and "lexical_cast_port default_service = None"
  shows "async_resolve to_string e resolver protocol flags default_service handler s =
           (Inl bad_lexical_cast, s, e)"
  using assms by (simp add: async_resolve_def resolve_def)

lemma async_resolve_success:
  assumes "fst (resolve e resolver protocol flags default_service) = Inr ep"
  shows "async_resolve to_string e resolver protocol flags default_service handler s =
           (Inr (),
            handler error_code_default
              [\<lparr>entry_endpoint = ep, host_name = to_string (address ep),
                service_name = lexical_cast_string (port ep)\<rparr>] s,
            e)"
proof -
  from assms have "resolve e resolver protocol flags default_service = (Inr ep, e)"
    by (auto simp add: resolve_def split: option.splits)
  then show ?thesis
    by (simp add: async_resolve_def iterator_create_def)
qed

lemma resolve_total:
  "m_port e \<noteq> None \<or> lexical_cast_port default_service \<noteq> None \<Longrightarrow>
     \<exists>ep. fst (resolve e resolver protocol flags default_service) = Inr ep"
  by (auto simp add: resolve_def split: option.splits)

section \<open>Synchronous resolution of a literal address\<close>

text \<open>
  C1: a literal address endpoint built with an explicit port \<open>P\<close> and any address \<open>A\<close>
  resolves to the transport endpoint of \<open>A\<close> and \<open>P\<close>, whatever the text of the default
  service is, malformed or not. The resolver, the protocol and the flags are arbitrary
  and the result does not mention them; the result is never a failure; the object is
  as it was.
\<close>

theorem resolve_explicit_port:
  "resolve (ip_endpoint A (Some P)) resolver protocol flags default_service =
     (Inr (ep_type A P), ip_endpoint A (Some P))"
  by (simp add: resolve_def)

text \<open>
  C2: a literal address endpoint with no port of its own reads the default service as
  an unsigned 16-bit integer in base 10. When the text is not empty, has digits only
  and a value of at most 65535, the result is the transport endpoint of the address and
  that value; for every other text the call fails with \<open>bad_lexical_cast\<close>, the failure
  that the specification names \<^verbatim>\<open>InvalidServiceFormat\<close>.
\<close>

theorem resolve_default_service:
  "resolve (ip_endpoint A None) resolver protocol flags default_service =
     ((if default_service \<noteq> [] \<and> list_all is_digit default_service
           \<and> decimal_value default_service \<le> 65535
       then Inr (ep_type A (of_nat (decimal_value default_service)))
       else Inl bad_lexical_cast),
      ip_endpoint A None)"
  by (simp add: resolve_def lexical_cast_port_eq)

theorem resolve_default_service_witness:
  "resolve (ip_endpoint (0x09000001 :: address_v4) None) () udp_v4 0 ''5000'' =
     (Inr (ep_type 0x09000001 5000), ip_endpoint 0x09000001 None)
   \<and> resolve (ip_endpoint (0x09000001 :: address_v4) None) () udp_v4 0 ''not-a-number'' =
     (Inl bad_lexical_cast, ip_endpoint 0x09000001 None)"
  using resolve_default_service
          [where A = "0x09000001 :: address_v4" and resolver = "()" and protocol = udp_v4
             and flags = 0 and default_service = "''5000''"]
        resolve_default_service
          [where A = "0x09000001 :: address_v4" and resolver = "()" and protocol = udp_v4
             and flags = 0 and default_service = "''not-a-number''"]
  by (simp add: is_digit_def digit_value_def decimal_value_def)

text \<open>
  C9: the result of \<open>resolve\<close> on a literal address endpoint, success or failure, is a
  function of the endpoint and of the default service alone: two calls that differ in
  the resolver, in the protocol and in the flags give the same result.
\<close>

theorem resolve_ignores_resolver_protocol_flags:
  "resolve e resolver protocol flags default_service =
     resolve e resolver' protocol' flags' default_service"
  by (simp add: resolve_def)

section \<open>Asynchronous resolution of a literal address\<close>

text \<open>
  C6: when resolution of a literal address endpoint succeeds with the transport endpoint
  \<open>ep\<close>, \<open>async_resolve\<close> calls the handler with the success code and a sequence of one
  entry: \<open>ep\<close> itself, the text of its address and the text of its port. The text of the
  port is its decimal rendering: read back, it gives the port again.
\<close>

theorem async_resolve_delivers_entry:
  "fst (resolve e resolver protocol flags default_service) = Inr ep \<Longrightarrow>
     async_resolve to_string e resolver protocol flags default_service handler s =
       (Inr (),
        handler error_code_default
          [\<lparr>entry_endpoint = ep, host_name = to_string (address ep),
            service_name = lexical_cast_string (port ep)\<rparr>] s,
        e)
     \<and> lexical_cast_port (lexical_cast_string (port ep)) = Some (port ep)"
  using async_resolve_success [of e resolver protocol flags default_service ep]
  by (simp add: lexical_cast_roundtrip)

theorem async_resolve_delivers_entry_witness:
  "fst (resolve (ip_endpoint (0x09000001 :: address_v4) None) () udp_v4 0 ''5000'') =
     Inr (ep_type 0x09000001 5000)
   \<and> async_resolve address_v4_to_string (ip_endpoint 0x09000001 None) () udp_v4 0 ''5000''
       record_call [] =
     (Inr (),
      [(error_code 0,
        [\<lparr>entry_endpoint = ep_type 0x09000001 5000, host_name = ''9.0.0.1'',
          service_name = ''5000''\<rparr>])],
      ip_endpoint 0x09000001 None)"
proof -
  have h: "fst (resolve (ip_endpoint (0x09000001 :: address_v4) None) () udp_v4 0 ''5000'') =
             Inr (ep_type 0x09000001 5000)"
    by (simp add: eval_simps)
  from async_resolve_delivers_entry
         [OF h, where to_string = address_v4_to_string and handler = record_call and s = "[]"]
       h
  show ?thesis
    by (simp add: record_call_def error_code_default_def address_v4_to_string_def
          lexical_cast_string_def write_decimal.simps char_of_digits)
qed

text \<open>
  C7: on a literal address endpoint the handler, when it is invoked, has run to its end
  before \<open>async_resolve\<close> returns: in the trace of a caller, the event of the handler
  comes right before the event of the return, and when the default service is rejected
  the return is the only event. Nothing is left to run later and nothing is handed to
  the resolver: the outcome is the same for every resolver, protocol and flags.
\<close>

theorem async_resolve_completes_in_place:
  "(if m_port e = None \<and> lexical_cast_port default_service = None
    then traced_async_resolve to_string e resolver protocol flags default_service trace =
           trace @ [Returned (Inl bad_lexical_cast)]
    else (\<exists>it. traced_async_resolve to_string e resolver protocol flags default_service trace =
           trace @ [Handler_called error_code_default it, Returned (Inr ())]))
   \<and> async_resolve to_string e resolver protocol flags default_service handler s =
       async_resolve to_string e resolver' protocol' flags' default_service handler s"
proof (intro conjI)
  show "async_resolve to_string e resolver protocol flags default_service handler s =
          async_resolve to_string e resolver' protocol' flags' default_service handler s"
    by (simp add: async_resolve_def resolve_def)
next
  show "if m_port e = None \<and> lexical_cast_port default_service = None
        then traced_async_resolve to_string e resolver protocol flags default_service trace =
               trace @ [Returned (Inl bad_lexical_cast)]
        else (\<exists>it. traced_async_resolve to_string e resolver protocol flags default_service
                      trace =
               trace @ [Handler_called error_code_default it, Returned (Inr ())])"
  proof (cases "m_port e = None \<and> lexical_cast_port default_service = None")
    case True
    then show ?thesis
      by (simp add: traced_async_resolve_def async_resolve_failure)
  next
    case False
    then obtain ep where "fst (resolve e resolver protocol flags default_service) = Inr ep"
      using resolve_total [of e default_service resolver protocol flags] by auto
    with False show ?thesis
      by (simp add: traced_async_resolve_def trace_handler_def async_resolve_success)
  qed
qed

theorem async_resolve_completes_in_place_witness:
  "traced_async_resolve address_v4_to_string (ip_endpoint 0x09000001 (Some 12000)) ()
     udp_v4 0 ''not-a-number'' [] =
   [Handler_called (error_code 0)
      [\<lparr>entry_endpoint = ep_type 0x09000001 12000, host_name = ''9.0.0.1'',
        service_name = ''12000''\<rparr>],
    Returned (Inr ())]"
  using async_resolve_completes_in_place
          [where to_string = address_v4_to_string
             and e = "ip_endpoint 0x09000001 (Some 12000)" and resolver = "()"
             and protocol = udp_v4 and flags = 0 and default_service = "''not-a-number''"
             and trace = "[]"]
  by (simp add: eval_simps)

text \<open>
  C10: on a literal address endpoint, every invocation of the handler by
  \<open>async_resolve\<close> carries the success code, the default-constructed error code. A
  failure never reaches the handler: when the endpoint has no port and the default
  service is rejected, \<open>bad_lexical_cast\<close> leaves \<open>async_resolve\<close> as an exception and
  the handler has not been called; on every other input the call returns and the
  handler has been called once.
\<close>

theorem async_resolve_handler_success_only:
  "(case async_resolve to_string e resolver protocol flags default_service record_call log of
      (r, log', e') \<Rightarrow>
        list_all (\<lambda>c. fst c = error_code_default) (drop (length log) log')
        \<and> (if m_port e = None \<and> lexical_cast_port default_service = None
           then r = Inl bad_lexical_cast \<and> log' = log
           else r = Inr () \<and> length log' = Suc (length log)))"
proof (cases "m_port e = None \<and> lexical_cast_port default_service = None")
  case True
  then show ?thesis
    by (simp add: async_resolve_failure)
next
  case False
  then obtain ep where "fst (resolve e resolver protocol flags default_service) = Inr ep"
    using resolve_total [of e default_service resolver protocol flags] by auto
  with False show ?thesis
    by (simp add: record_call_def async_resolve_success)
qed

theorem async_resolve_handler_success_only_witness:
  "async_resolve address_v4_to_string (ip_endpoint 0x09000001 None) () udp_v4 0
     ''not-a-number'' record_call [] =
   (Inl bad_lexical_cast, [], ip_endpoint 0x09000001 None)"
  using async_resolve_handler_success_only
          [where to_string = address_v4_to_string and e = "ip_endpoint 0x09000001 None"
             and resolver = "()" and protocol = udp_v4 and flags = 0
             and default_service = "''not-a-number''" and log = "[]"]
  by (simp add: eval_simps)

section \<open>Synchronous resolution of a hostname\<close>

text \<open>
  C5: synchronous resolution of a hostname endpoint asks the injected resolver, with
  the query made of the protocol, the hostname, the service of the endpoint or else the
  default service, and the flags. When the resolver answers with success, the result is
  the first candidate of the answer in the order of the resolver, and the failure
  \<open>EmptyResult\<close> when the answer has no candidate.
\<close>

theorem hostname_resolve_first_candidate:
  "resolver
     \<lparr>query_protocol = protocol, query_host = m_hostname e,
      query_service = (case m_service e of Some sv \<Rightarrow> sv | None \<Rightarrow> default_service),
      query_flags = flags\<rparr> = (error_code_default, it) \<Longrightarrow>
   fst (hostname_resolve e resolver protocol flags default_service) =
     (case it of [] \<Rightarrow> Inl EmptyResult | x # xs \<Rightarrow> Inr (entry_endpoint x))"
  by (simp add: hostname_resolve_def hostname_query_def first_candidate_def)

theorem hostname_resolve_first_candidate_witness:
  "fst (hostname_resolve (hostname_endpoint ''example.org'' None) single_resolver udp_v4 0
          ''1234'') = Inr (ep_type 0x09000001 1234)
   \<and> fst (hostname_resolve (hostname_endpoint ''example.org'' None)
            (empty_resolver :: address_v4 resolver) udp_v4 0 ''1234'') = Inl EmptyResult"
proof -
  let ?q = "\<lparr>query_protocol = udp_v4,
             query_host = m_hostname (hostname_endpoint ''example.org'' None),
             query_service = (case m_service (hostname_endpoint ''example.org'' None) of
                                Some sv \<Rightarrow> sv | None \<Rightarrow> ''1234''),
             query_flags = 0\<rparr>"
  have one: "single_resolver ?q =
           (error_code_default,
            [\<lparr>entry_endpoint = ep_type 0x09000001 1234, host_name = ''example.org'',
              service_name = ''1234''\<rparr>])"
    by (simp add: single_resolver_def)
  have none: "(empty_resolver :: address_v4 resolver) ?q = (error_code_default, [])"
    by (simp add: empty_resolver_def)
  from hostname_resolve_first_candidate
         [where resolver = single_resolver and e = "hostname_endpoint ''example.org'' None"
            and protocol = udp_v4 and flags = 0 and default_service = "''1234''", OF one]
       hostname_resolve_first_candidate
         [where resolver = "empty_resolver :: address_v4 resolver"
            and e = "hostname_endpoint ''example.org'' None"
            and protocol = udp_v4 and flags = 0 and default_service = "''1234''", OF none]
  show ?thesis by simp
qed

section \<open>Both variants\<close>

text \<open>
  C3: on every endpoint and with the same arguments, what \<open>async_resolve\<close> gives its
  caller is what \<open>resolve\<close> returns. On a literal address endpoint, either both calls
  end with the same exception and the handler is not called, or the handler is called
  once with the success code and the endpoint that \<open>resolve\<close> returns. On a hostname
  endpoint the handler is called once with the answer of the resolver, of which
  \<open>resolve\<close> returns the first candidate, or the failure that this answer stands for:
  the error of the resolver, or \<open>EmptyResult\<close> for an answer with no candidate.
\<close>

theorem resolve_async_resolve_agree:
  "(case endpoint_async_resolve to_string e resolver protocol flags default_service
           record_call [] of
      (r, log, e') \<Rightarrow> yielded r log) =
   Some (fst (endpoint_resolve e resolver protocol flags default_service))"
proof (cases e)
  case (Literal l)
  show ?thesis
  proof (cases "m_port l = None \<and> lexical_cast_port default_service = None")
    case True
    with Literal show ?thesis
      by (simp add: async_resolve_failure resolve_cases)
  next
    case False
    then obtain ep where ep: "fst (resolve l resolver protocol flags default_service) = Inr ep"
      using resolve_total [of l default_service resolver protocol flags] by auto
    with Literal show ?thesis
      by (simp add: async_resolve_success record_call_def first_candidate_def)
  qed
next
  case (Hostname h)
  then show ?thesis
    by (simp add: hostname_async_resolve_def hostname_resolve_def record_call_def
          split: prod.split)
qed

text \<open>
  C8: a call of \<open>resolve\<close> or of \<open>async_resolve\<close>, on either variant, with any
  arguments, whether it succeeds or fails, leaves the endpoint with the fields it had.
\<close>

theorem resolution_keeps_endpoint:
  "snd (endpoint_resolve e resolver protocol flags default_service) = e
   \<and> snd (snd (endpoint_async_resolve to_string e resolver protocol flags default_service
                 handler s)) = e"
proof (cases e)
  case (Literal l)
  then show ?thesis
    by (simp add: resolve_def async_resolve_def Let_def split: option.split)
next
  case (Hostname h)
  then show ?thesis
    by (simp add: hostname_resolve_def hostname_async_resolve_def split: prod.split)
qed

text \<open>
  C4, as the code has it: with a handler that holds a function, \<open>async_resolve\<close>
  invokes it exactly once, with a success value or with a failure value, on every
  endpoint and every input but one: a literal address endpoint with no port of its own
  whose default service is rejected. There the handler is not invoked and the failure
  is not delivered to it: it leaves \<open>async_resolve\<close> as the exception
  \<open>bad_lexical_cast\<close>. On every other input the one invocation carries the outcome of
  the resolution: on a literal address endpoint the success code, and on a hostname
  endpoint the answer of the resolver as it is, so that an error of the resolver
  reaches the handler. Whether an exception leaves \<open>async_resolve\<close> on those other
  inputs is not part of the statement.
\<close>

theorem async_resolve_callback_count:
  "(case endpoint_async_resolve to_string e resolver protocol flags default_service
           record_call log of
      (r, log', e') \<Rightarrow>
        if default_service_rejected e default_service
        then r = Inl bad_lexical_cast \<and> log' = log
        else (case e of
                Literal l \<Rightarrow> (\<exists>it. log' = log @ [(error_code_default, it)])
              | Hostname h \<Rightarrow>
                  log' = log @ [resolver (hostname_query h protocol flags default_service)]))"
proof (cases e)
  case (Literal l)
  show ?thesis
  proof (cases "m_port l = None \<and> lexical_cast_port default_service = None")
    case True
    with Literal show ?thesis
      by (simp add: async_resolve_failure)
  next
    case False
    then obtain ep where "fst (resolve l resolver protocol flags default_service) = Inr ep"
      using resolve_total [of l default_service resolver protocol flags] by auto
    with Literal False show ?thesis
      by (simp add: async_resolve_success record_call_def)
  qed
next
  case (Hostname h)
  then show ?thesis
    by (simp add: hostname_async_resolve_def record_call_def split: prod.split)
qed

theorem async_resolve_callback_count_witness:
  "fst (snd (endpoint_async_resolve address_v4_to_string
               (Literal (ip_endpoint 0x09000001 None)) empty_resolver udp_v4 0 ''5000''
               record_call [])) =
     [(error_code 0,
       [\<lparr>entry_endpoint = ep_type 0x09000001 5000, host_name = ''9.0.0.1'',
         service_name = ''5000''\<rparr>])]
   \<and> fst (snd (endpoint_async_resolve address_v4_to_string
                 (Hostname (hostname_endpoint ''example.org'' None)) failing_resolver udp_v4 0
                 ''1234'' record_call [])) =
     [(error_code 1, [])]"
  using async_resolve_callback_count
          [where to_string = address_v4_to_string
             and e = "Literal (ip_endpoint 0x09000001 None)"
             and resolver = empty_resolver and protocol = udp_v4 and flags = 0
             and default_service = "''5000''" and log = "[]"]
        async_resolve_callback_count
          [where to_string = address_v4_to_string
             and e = "Hostname (hostname_endpoint ''example.org'' None)"
             and resolver = failing_resolver and protocol = udp_v4 and flags = 0
             and default_service = "''1234''" and log = "[]"]
  by (simp add: eval_simps)

text \<open>
  C4, as the claim has it, fails on the literal address 9.0.0.1 with no port and the
  default service \<^verbatim>\<open>not-a-number\<close>: the log of the handler is empty after the call, and
  the failure has left the call as an exception.
\<close>

theorem async_resolve_handler_not_called:
  "endpoint_async_resolve address_v4_to_string (Literal (ip_endpoint 0x09000001 None))
     empty_resolver udp_v4 0 ''not-a-number'' record_call [] =
   (Inl bad_lexical_cast, [], Literal (ip_endpoint 0x09000001 None))"
  by (simp add: async_resolve_def resolve_def lexical_cast_port_def is_digit_def)

end
